theory Spec2Isabelle
  imports Main
begin

section \<open>The Res1D facade of mikeio1d\<close>

text \<open>
  The embedding follows \<^verbatim>\<open>src/mikeio1d/res1d.py\<close>. The class \<^verbatim>\<open>Res1D\<close> owns very
  little state of its own: two references to Python list objects that live in the result
  network, one alias of the first of them, and one flag. Everything else it does is a
  call into a collaborator whose code is outside the file: the result reader, the result
  writer, the result network, the extractor factory and the .NET result data.

  Python objects that the class only passes around (queries, data frames, data entries,
  extractors, .NET date-times, chainages) are values of one type variable \<open>'v\<close>.
  The collaborators are a record of functions over an opaque collaborator state \<open>'e\<close>;
  each of them returns either a raised exception or a value, together with the
  collaborator state it leaves behind. The collaborator state is separate from the heap
  of list objects below, so a collaborator called from \<^verbatim>\<open>Res1D\<close> answers and changes
  its own state only.
\<close>

subsection \<open>Exceptions, arguments and the log of collaborator calls\<close>

datatype 'v exc =
    NotImplementedError string
  | Raised 'v

text \<open>The \<^verbatim>\<open>queries\<close> argument: \<^verbatim>\<open>None\<close>, a \<^verbatim>\<open>list\<close>, or any other object.\<close>

datatype 'v queries_arg =
    QNone
  | QList "'v list"
  | QObj 'v

text \<open>The \<^verbatim>\<open>time\<close> argument, as \<^verbatim>\<open>isinstance(time, DateTime)\<close> sees it.\<close>

datatype 'v time_arg =
    IsDateTime 'v
  | NotDateTime 'v

datatype 'v call =
    Call_is_lts_result_file
  | Call_to_dotnet_datetime 'v
  | Call_GetReachValue 'v 'v 'v 'v
  | Call_reader_read "'v list"
  | Call_reader_read_all
  | Call_writer_modify 'v
  | Call_set_path string
  | Call_data_save
  | Call_convert_queries "'v list"
  | Call_extractor_create string string 'v int
  | Call_extractor_export 'v

subsection \<open>The collaborators\<close>

record ('v, 'e) external =
  reader_is_lts_result_file :: "'e \<Rightarrow> ('v exc + bool) \<times> 'e"
  to_dotnet_datetime :: "'v \<Rightarrow> 'e \<Rightarrow> ('v exc + 'v) \<times> 'e"
  query_GetReachValue :: "'v \<Rightarrow> 'v \<Rightarrow> 'v \<Rightarrow> 'v \<Rightarrow> 'e \<Rightarrow> ('v exc + 'v) \<times> 'e"
  reader_read :: "'v list \<Rightarrow> 'e \<Rightarrow> ('v exc + 'v) \<times> 'e"
  reader_read_all :: "'e \<Rightarrow> ('v exc + 'v) \<times> 'e"
  writer_modify :: "'v \<Rightarrow> 'e \<Rightarrow> ('v exc + unit) \<times> 'e"
  data_set_path :: "string \<Rightarrow> 'e \<Rightarrow> ('v exc + unit) \<times> 'e"
  data_save :: "'e \<Rightarrow> ('v exc + unit) \<times> 'e"
  convert_queries_to_data_entries :: "'v list \<Rightarrow> 'e \<Rightarrow> ('v exc + 'v) \<times> 'e"
  extractor_create :: "string \<Rightarrow> string \<Rightarrow> 'v \<Rightarrow> int \<Rightarrow> 'e \<Rightarrow> ('v exc + 'v) \<times> 'e"
  extractor_export :: "'v \<Rightarrow> 'e \<Rightarrow> ('v exc + unit) \<times> 'e"
  ExtractorOutputFileType_CSV :: string
  ExtractorOutputFileType_DFS0 :: string
  ExtractorOutputFileType_TXT :: string
  path_sep :: char
  path_altsep :: "char option"

subsection \<open>The state of a Res1D object\<close>

text \<open>
  \<open>heap\<close> holds the Python list objects by address. \<open>network_queries\<close> and
  \<open>network_queries_ids\<close> are \<^verbatim>\<open>result_network.queries\<close> and
  \<^verbatim>\<open>result_network.queries_ids\<close>; \<open>queries_ref\<close> is \<^verbatim>\<open>self._queries\<close>, which
  \<^verbatim>\<open>__init__\<close> binds to the object \<^verbatim>\<open>result_network.queries\<close>. \<open>calls\<close> records the
  collaborator calls in the order they were made.
\<close>

record ('v, 'e) res1d =
  heap :: "nat \<Rightarrow> 'v list"
  network_queries :: nat
  network_queries_ids :: nat
  queries_ref :: nat
  clear_queries_after_reading :: bool
  engine :: 'e
  calls :: "'v call list"

text \<open>One collaborator call: it is logged, then run on the collaborator state.\<close>

definition ext_call ::
  "'v call \<Rightarrow> ('e \<Rightarrow> ('v exc + 'a) \<times> 'e) \<Rightarrow> ('v, 'e) res1d \<Rightarrow> ('v exc + 'a) \<times> ('v, 'e) res1d" where
  "ext_call c f s =
     (case f (engine s) of
        (r, e') \<Rightarrow> (r, s\<lparr>engine := e', calls := calls s @ [c]\<rparr>))"

text \<open>Statement sequencing: the second statement runs only if the first did not raise.\<close>

definition then_run ::
  "(('v, 'e) res1d \<Rightarrow> ('v exc + 'a) \<times> ('v, 'e) res1d) \<Rightarrow>
   ('a \<Rightarrow> ('v, 'e) res1d \<Rightarrow> ('v exc + 'b) \<times> ('v, 'e) res1d) \<Rightarrow>
   ('v, 'e) res1d \<Rightarrow> ('v exc + 'b) \<times> ('v, 'e) res1d" where
  "then_run m k s =
     (case m s of
        (Inl x, s') \<Rightarrow> (Inl x, s')
      | (Inr a, s') \<Rightarrow> k a s')"

text \<open>The calls made since an earlier state.\<close>

definition new_calls :: "('v, 'e) res1d \<Rightarrow> ('v, 'e) res1d \<Rightarrow> 'v call list" where
  "new_calls s s' = drop (length (calls s)) (calls s')"

subsection \<open>Queries\<close>

definition active_queries :: "('v, 'e) res1d \<Rightarrow> 'v list" where
  "active_queries s = heap s (queries_ref s)"

text \<open>\<^verbatim>\<open>Res1D._get_actual_queries\<close>\<close>

definition get_actual_queries :: "'v queries_arg \<Rightarrow> ('v, 'e) res1d \<Rightarrow> 'v list" where
  "get_actual_queries queries s =
     (case queries of
        QNone \<Rightarrow> active_queries s
      | QList qs \<Rightarrow> qs
      | QObj q \<Rightarrow> [q])"

text \<open>\<^verbatim>\<open>Res1D.read_all\<close>\<close>

definition read_all ::
  "('v, 'e) external \<Rightarrow> ('v, 'e) res1d \<Rightarrow> ('v exc + 'v) \<times> ('v, 'e) res1d" where
  "read_all X s = ext_call Call_reader_read_all (reader_read_all X) s"

text \<open>\<^verbatim>\<open>Res1D.read\<close>\<close>

definition read ::
  "('v, 'e) external \<Rightarrow> 'v queries_arg \<Rightarrow> ('v, 'e) res1d \<Rightarrow> ('v exc + 'v) \<times> ('v, 'e) res1d" where
  "read X queries s =
     (if queries = QNone \<and> length (active_queries s) = 0 then read_all X s
      else
        let qs = get_actual_queries queries s
        in ext_call (Call_reader_read qs) (reader_read X qs) s)"

text \<open>\<^verbatim>\<open>Res1D.clear_queries\<close>: both lists are cleared in place, the first one first.\<close>

definition clear_queries :: "('v, 'e) res1d \<Rightarrow> ('v, 'e) res1d" where
  "clear_queries s =
     (let s1 = s\<lparr>heap := (heap s)(network_queries s := [])\<rparr>
      in s1\<lparr>heap := (heap s1)(network_queries_ids s1 := [])\<rparr>)"

subsection \<open>Query wrappers\<close>

text \<open>\<^verbatim>\<open>Res1D.get_reach_value\<close>\<close>

definition get_reach_value ::
  "('v, 'e) external \<Rightarrow> 'v \<Rightarrow> 'v \<Rightarrow> 'v \<Rightarrow> 'v time_arg \<Rightarrow> ('v, 'e) res1d \<Rightarrow>
   ('v exc + 'v) \<times> ('v, 'e) res1d" where
  "get_reach_value X reach_name chainage quantity time =
     then_run (ext_call Call_is_lts_result_file (reader_is_lts_result_file X))
       (\<lambda>lts.
          if lts then
            (\<lambda>s. (Inl (NotImplementedError
                        ''The method is not implemented for LTS event statistics.''), s))
          else
            then_run
              (case time of
                 IsDateTime t \<Rightarrow> (\<lambda>s. (Inr t, s))
               | NotDateTime t \<Rightarrow> ext_call (Call_to_dotnet_datetime t) (to_dotnet_datetime X t))
              (\<lambda>time_dotnet.
                 ext_call (Call_GetReachValue reach_name chainage quantity time_dotnet)
                   (query_GetReachValue X reach_name chainage quantity time_dotnet)))"

subsection \<open>Modifying and saving\<close>

text \<open>\<^verbatim>\<open>Res1D.save\<close>\<close>

definition save ::
  "('v, 'e) external \<Rightarrow> string \<Rightarrow> ('v, 'e) res1d \<Rightarrow> ('v exc + unit) \<times> ('v, 'e) res1d" where
  "save X file_path =
     then_run (ext_call (Call_set_path file_path) (data_set_path X file_path))
       (\<lambda>_. ext_call Call_data_save (data_save X))"

text \<open>\<^verbatim>\<open>Res1D.modify\<close>\<close>

definition modify ::
  "('v, 'e) external \<Rightarrow> 'v \<Rightarrow> string option \<Rightarrow> ('v, 'e) res1d \<Rightarrow>
   ('v exc + unit) \<times> ('v, 'e) res1d" where
  "modify X data_frame file_path =
     then_run (ext_call (Call_writer_modify data_frame) (writer_modify X data_frame))
       (\<lambda>_. case file_path of
               None \<Rightarrow> (\<lambda>s. (Inr (), s))
             | Some p \<Rightarrow> save X p)"

subsection \<open>The extension of a path\<close>

text \<open>
  \<^verbatim>\<open>os.path.splitext\<close> is the standard library's \<^verbatim>\<open>genericpath._splitext\<close>, called with
  the separators of the platform (\<open>path_sep\<close>, \<open>path_altsep\<close>) and the extension
  separator \<^verbatim>\<open>'.'\<close>. \<open>rfind\<close> is \<^verbatim>\<open>str.rfind\<close> for one character: the last index, or
  \<open>-1\<close>.
\<close>

fun rfind_from :: "char \<Rightarrow> string \<Rightarrow> int \<Rightarrow> int \<Rightarrow> int" where
  "rfind_from c [] i found = found"
| "rfind_from c (x # xs) i found = rfind_from c xs (i + 1) (if x = c then i else found)"

definition rfind :: "string \<Rightarrow> char \<Rightarrow> int" where
  "rfind p c = rfind_from c p 0 (- 1)"

text \<open>The loop that skips the leading dots of the file name.\<close>

function skip_leading_dots :: "string \<Rightarrow> char \<Rightarrow> nat \<Rightarrow> nat \<Rightarrow> string \<times> string" where
  "skip_leading_dots p extsep filenameIndex dotIndex =
     (if filenameIndex < dotIndex then
        (if take 1 (drop filenameIndex p) \<noteq> [extsep] then (take dotIndex p, drop dotIndex p)
         else skip_leading_dots p extsep (filenameIndex + 1) dotIndex)
      else (p, []))"
  by pat_completeness auto
termination
  by (relation "measure (\<lambda>(p, extsep, filenameIndex, dotIndex). dotIndex - filenameIndex)") auto

declare skip_leading_dots.simps [simp del]

definition splitext_generic :: "string \<Rightarrow> char \<Rightarrow> char option \<Rightarrow> char \<Rightarrow> string \<times> string" where
  "splitext_generic p sep altsep extsep =
     (let sepIndex = rfind p sep;
          sepIndex = (case altsep of
                        None \<Rightarrow> sepIndex
                      | Some a \<Rightarrow> max sepIndex (rfind p a));
          dotIndex = rfind p extsep
      in if dotIndex > sepIndex then
           skip_leading_dots p extsep (nat (sepIndex + 1)) (nat dotIndex)
         else (p, []))"

definition splitext :: "('v, 'e) external \<Rightarrow> string \<Rightarrow> string \<times> string" where
  "splitext X p = splitext_generic p (path_sep X) (path_altsep X) (CHR ''.'')"

subsection \<open>Extracting to a file\<close>

text \<open>\<^verbatim>\<open>Res1D.extract\<close>\<close>

definition "extract" ::
  "('v, 'e) external \<Rightarrow> string \<Rightarrow> 'v queries_arg \<Rightarrow> int \<Rightarrow> string option \<Rightarrow>
   ('v, 'e) res1d \<Rightarrow> ('v exc + unit) \<times> ('v, 'e) res1d" where
  "extract X file_path queries time_step_skipping_number ext s =
     (let ext = (case ext of
                   None \<Rightarrow> snd (splitext X file_path)
                 | Some e \<Rightarrow> e);
          queries = get_actual_queries queries s
      in then_run
           (ext_call (Call_convert_queries queries) (convert_queries_to_data_entries X queries))
           (\<lambda>data_entries.
              then_run
                (ext_call
                   (Call_extractor_create ext file_path data_entries time_step_skipping_number)
                   (extractor_create X ext file_path data_entries time_step_skipping_number))
                (\<lambda>extractor.
                   then_run
                     (ext_call (Call_extractor_export extractor) (extractor_export X extractor))
                     (\<lambda>_ s'. (Inr (),
                        if clear_queries_after_reading s' then clear_queries s' else s'))))
           s)"





subsection \<open>Construction\<close>

text \<open>
  \<^verbatim>\<open>Res1D.__init__\<close> calls three constructors that are outside the file. The reader's
  constructor receives every loading argument as given and yields the collaborator
  state; the network's constructor allocates the two list objects and yields their
  addresses in a heap; then \<^verbatim>\<open>self._queries\<close> is bound to the network's query list.
  The log of a new object is empty.
\<close>

record ('v, 'e) constructors =
  ResultReaderCreator_create ::
    "'v \<Rightarrow> string option \<Rightarrow> bool \<Rightarrow> bool \<Rightarrow>
     string list option \<Rightarrow> string list option \<Rightarrow> string list option \<Rightarrow>
     string \<Rightarrow> bool \<Rightarrow> 'v exc + 'e"
  ResultNetwork_new :: "'e \<Rightarrow> ('v exc + nat \<times> nat \<times> (nat \<Rightarrow> 'v list)) \<times> 'e"
  ResultWriter_new :: "'e \<Rightarrow> ('v exc + unit) \<times> 'e"

definition Res1D_init ::
  "('v, 'e) constructors \<Rightarrow> string option \<Rightarrow> bool \<Rightarrow> bool \<Rightarrow>
   string list option \<Rightarrow> string list option \<Rightarrow> string list option \<Rightarrow>
   string \<Rightarrow> bool \<Rightarrow> bool \<Rightarrow> 'v \<Rightarrow> 'v exc + ('v, 'e) res1d" where
  "Res1D_init K file_path lazy_load header_load reaches nodes catchments
       col_name_delimiter put_chainage_in_col_name clear_after result_reader_type =
     (case ResultReaderCreator_create K result_reader_type file_path lazy_load header_load
             reaches nodes catchments col_name_delimiter put_chainage_in_col_name of
        Inl x \<Rightarrow> Inl x
      | Inr e0 \<Rightarrow>
          (case ResultNetwork_new K e0 of
             (Inl x, _) \<Rightarrow> Inl x
           | (Inr (qa, ia, h), ea) \<Rightarrow>
               (case ResultWriter_new K ea of
                  (Inl x, _) \<Rightarrow> Inl x
                | (Inr _, eb) \<Rightarrow>
                    Inr \<lparr>heap = h, network_queries = qa, network_queries_ids = ia,
                         queries_ref = qa, clear_queries_after_reading = clear_after,
                         engine = eb, calls = []\<rparr>)))"

subsection \<open>A concrete collaborator\<close>

text \<open>
  Objects are strings and the collaborator state is the list of what was written, newest
  first. Nothing raises and the file is not a statistics file; the variants used below
  change one function at a time.
\<close>

definition demo :: "(string, string list) external" where
  "demo =
     \<lparr>reader_is_lts_result_file = (\<lambda>e. (Inr False, e)),
      to_dotnet_datetime = (\<lambda>t e. (Inr (''dotnet:'' @ t), e)),
      query_GetReachValue = (\<lambda>r c q t e. (Inr (q @ ''@'' @ r), e)),
      reader_read = (\<lambda>qs e. (Inr (concat qs), e)),
      reader_read_all = (\<lambda>e. (Inr ''all'', e)),
      writer_modify = (\<lambda>df e. (Inr (), df # e)),
      data_set_path = (\<lambda>p e. (Inr (), p # e)),
      data_save = (\<lambda>e. (Inr (), ''saved'' # e)),
      convert_queries_to_data_entries = (\<lambda>qs e. (Inr (concat qs), e)),
      extractor_create = (\<lambda>ext fp d n e. (Inr (ext @ '':'' @ fp), e)),
      extractor_export = (\<lambda>x e. (Inr (), x # e)),
      ExtractorOutputFileType_CSV = ''csv'',
      ExtractorOutputFileType_DFS0 = ''dfs0'',
      ExtractorOutputFileType_TXT = ''txt'',
      path_sep = CHR ''/'',
      path_altsep = None\<rparr>"

definition boom :: "string exc" where
  "boom = Raised ''FileNotFoundError''"

text \<open>An object with one active query, and the same object with none.\<close>

definition demo_state :: "(string, string list) res1d" where
  "demo_state =
     \<lparr>heap = (\<lambda>_. [])(0 := [''q1''], 1 := [''id1'']),
      network_queries = 0, network_queries_ids = 1, queries_ref = 0,
      clear_queries_after_reading = True, engine = [], calls = []\<rparr>"

definition demo_idle :: "(string, string list) res1d" where
  "demo_idle =
     \<lparr>heap = (\<lambda>_. []),
      network_queries = 0, network_queries_ids = 1, queries_ref = 0,
      clear_queries_after_reading = True, engine = [], calls = []\<rparr>"

text \<open>Collaborators that raise: while reading and at the first step of saving and
  extracting; at the later steps of saving and extracting; at the export.\<close>

definition demo_raise_first :: "(string, string list) external" where
  "demo_raise_first =
     demo\<lparr>reader_read := (\<lambda>qs e. (Inl boom, e)),
          reader_read_all := (\<lambda>e. (Inl boom, e)),
          data_set_path := (\<lambda>p e. (Inl boom, e)),
          convert_queries_to_data_entries := (\<lambda>qs e. (Inl boom, e))\<rparr>"

definition demo_raise_later :: "(string, string list) external" where
  "demo_raise_later =
     demo\<lparr>data_save := (\<lambda>e. (Inl boom, e)),
          extractor_create := (\<lambda>ext fp d n e. (Inl boom, e))\<rparr>"

definition demo_raise_export :: "(string, string list) external" where
  "demo_raise_export = demo\<lparr>extractor_export := (\<lambda>x e. (Inl boom, e))\<rparr>"

text \<open>
  Modelled from the spec: the extractor factory \<^verbatim>\<open>ExtractorCreator.create\<close>, whose module
  is not part of the file. The docstring of \<^verbatim>\<open>extract\<close> lists the output file types as
  \<^verbatim>\<open>'csv'\<close>, \<^verbatim>\<open>'dfs0'\<close> and \<^verbatim>\<open>'txt'\<close>, and an unsupported format is a failure of the
  collaborator. The factory below creates an extractor for these three types and raises
  for every other one.
\<close>

definition unsupported :: "string exc" where
  "unsupported = Raised ''unsupported output file type''"

definition documented_create ::
  "string \<Rightarrow> string \<Rightarrow> string \<Rightarrow> int \<Rightarrow> string list \<Rightarrow> (string exc + string) \<times> string list" where
  "documented_create ext fp d n e =
     (if ext = ''csv'' \<or> ext = ''dfs0'' \<or> ext = ''txt'' then (Inr (ext @ '':'' @ fp), e)
      else (Inl unsupported, e))"

definition demo_documented :: "(string, string list) external" where
  "demo_documented = demo\<lparr>extractor_create := documented_create\<rparr>"

section \<open>Properties\<close>

subsection \<open>Collaborator calls and the concrete collaborators\<close>

lemma ext_call_result:
  "f (engine s) = (r, e') \<Longrightarrow>
   ext_call c f s = (r, s\<lparr>engine := e', calls := calls s @ [c]\<rparr>)"
  by (simp add: ext_call_def)

lemma ext_call_heap: "heap (snd (ext_call c f s)) = heap s"
  by (simp add: ext_call_def split: prod.split)

lemma ext_call_fst: "fst (ext_call c f s) = fst (f (engine s))"
  by (simp add: ext_call_def split: prod.split)

lemma ext_call_new_calls: "new_calls s (snd (ext_call c f s)) = [c]"
  by (simp add: ext_call_def new_calls_def split: prod.split)

lemma demo_fields [simp]:
  "reader_read demo qs e = (Inr (concat qs), e)"
  "reader_read_all demo e = (Inr ''all'', e)"
  "data_set_path demo p e = (Inr (), p # e)"
  "data_save demo e = (Inr (), ''saved'' # e)"
  "convert_queries_to_data_entries demo qs e = (Inr (concat qs), e)"
  "extractor_create demo ext fp d n e = (Inr (ext @ '':'' @ fp), e)"
  "extractor_export demo x e = (Inr (), x # e)"
  "path_sep demo = CHR ''/''" "path_altsep demo = None"
  "ExtractorOutputFileType_CSV demo = ''csv''"
  "ExtractorOutputFileType_DFS0 demo = ''dfs0''"
  "ExtractorOutputFileType_TXT demo = ''txt''"
  by (simp_all add: demo_def)

lemma demo_raise_first_fields [simp]:
  "reader_read demo_raise_first qs e = (Inl boom, e)"
  "reader_read_all demo_raise_first e = (Inl boom, e)"
  "data_set_path demo_raise_first p e = (Inl boom, e)"
  "convert_queries_to_data_entries demo_raise_first qs e = (Inl boom, e)"
  by (simp_all add: demo_raise_first_def)

lemma demo_raise_later_fields [simp]:
  "data_set_path demo_raise_later p e = (Inr (), p # e)"
  "data_save demo_raise_later e = (Inl boom, e)"
  "convert_queries_to_data_entries demo_raise_later qs e = (Inr (concat qs), e)"
  "extractor_create demo_raise_later ext fp d n e = (Inl boom, e)"
  by (simp_all add: demo_raise_later_def)

lemma demo_raise_export_fields [simp]:
  "convert_queries_to_data_entries demo_raise_export qs e = (Inr (concat qs), e)"
  "extractor_create demo_raise_export ext fp d n e = (Inr (ext @ '':'' @ fp), e)"
  "extractor_export demo_raise_export x e = (Inl boom, e)"
  by (simp_all add: demo_raise_export_def)

lemma demo_documented_fields [simp]:
  "convert_queries_to_data_entries demo_documented qs e = (Inr (concat qs), e)"
  "extractor_create demo_documented ext fp d n e = documented_create ext fp d n e"
  "extractor_export demo_documented x e = (Inr (), x # e)"
  "path_sep demo_documented = CHR ''/''" "path_altsep demo_documented = None"
  "ExtractorOutputFileType_CSV demo_documented = ''csv''"
  by (simp_all add: demo_documented_def)

lemma demo_state_queries [simp]:
  "active_queries demo_state = [''q1'']" "active_queries demo_idle = []"
  "get_actual_queries QNone demo_state = [''q1'']"
  "engine demo_state = []" "calls demo_state = []"
  "engine demo_idle = []" "calls demo_idle = []"
  by (simp_all add: get_actual_queries_def active_queries_def demo_state_def demo_idle_def)

lemma Res1D_init_alias:
  assumes "Res1D_init K file_path lazy_load header_load reaches nodes catchments
             delim put_ch clear_after reader_type = Inr s"
  shows "queries_ref s = network_queries s \<and> calls s = [] \<and>
         clear_queries_after_reading s = clear_after"
  using assms
  by (auto simp add: Res1D_init_def split: sum.splits prod.splits)

text \<open>
  The filter lists reach the reader's constructor as they were given: the constructor of
  \<^verbatim>\<open>Res1D\<close> does not turn an empty list into \<^verbatim>\<open>None\<close> or the reverse. Two
  constructions agree whenever the reader's constructor does.
\<close>

lemma Res1D_init_forwards_filters:
  assumes "ResultReaderCreator_create K reader_type file_path lazy_load header_load
             reaches nodes catchments delim put_ch =
           ResultReaderCreator_create K reader_type file_path lazy_load header_load
             reaches' nodes' catchments' delim put_ch"
  shows "Res1D_init K file_path lazy_load header_load reaches nodes catchments
           delim put_ch clear_after reader_type =
         Res1D_init K file_path lazy_load header_load reaches' nodes' catchments'
           delim put_ch clear_after reader_type"
  using assms by (simp add: Res1D_init_def)

subsection \<open>The rejection of point-in-time values on statistics files\<close>

text \<open>
  C1: when the reader reports a long-term-statistics file, \<^verbatim>\<open>get_reach_value\<close> raises
  \<^verbatim>\<open>NotImplementedError\<close> for every reach name, chainage, quantity and time. The only
  collaborator call it has made is the question whether the file is a statistics file:
  the time was not converted and the query engine was not asked.
\<close>

theorem get_reach_value_lts:
  assumes "reader_is_lts_result_file X (engine s) = (Inr True, e')"
  shows "get_reach_value X reach_name chainage quantity time s =
           (Inl (NotImplementedError ''The method is not implemented for LTS event statistics.''),
            s\<lparr>engine := e', calls := calls s @ [Call_is_lts_result_file]\<rparr>)
         \<and> new_calls s (snd (get_reach_value X reach_name chainage quantity time s)) =
             [Call_is_lts_result_file]"
proof -
  have call: "ext_call Call_is_lts_result_file (reader_is_lts_result_file X) s =
                (Inr True, s\<lparr>engine := e', calls := calls s @ [Call_is_lts_result_file]\<rparr>)"
    using assms by (rule ext_call_result)
  have res: "get_reach_value X reach_name chainage quantity time s =
           (Inl (NotImplementedError ''The method is not implemented for LTS event statistics.''),
            s\<lparr>engine := e', calls := calls s @ [Call_is_lts_result_file]\<rparr>)"
    unfolding get_reach_value_def then_run_def by (simp add: call)
  show ?thesis
    by (simp add: res new_calls_def)
qed

theorem get_reach_value_lts_witness:
  "get_reach_value (demo\<lparr>reader_is_lts_result_file := (\<lambda>e. (Inr True, e))\<rparr>)
       ''reach1'' ''50.0'' ''Discharge'' (NotDateTime ''2020-01-01'') demo_state =
     (Inl (NotImplementedError ''The method is not implemented for LTS event statistics.''),
      demo_state\<lparr>engine := [], calls := [Call_is_lts_result_file]\<rparr>)"
  using get_reach_value_lts [of "demo\<lparr>reader_is_lts_result_file := (\<lambda>e. (Inr True, e))\<rparr>"
      demo_state "[]" "''reach1''" "''50.0''" "''Discharge''" "NotDateTime ''2020-01-01''"]
  by (simp add: demo_state_def)

subsection \<open>Reading\<close>

text \<open>
  Reading changes neither the list objects nor the references to them: \<^verbatim>\<open>read\<close> has no
  step that clears the queries, whatever the flag says. Extracting has that step.
\<close>

lemma read_keeps_heap: "heap (snd (read X queries s)) = heap s"
  by (simp add: read_def read_all_def ext_call_heap Let_def)

lemma read_keeps_refs:
  "network_queries (snd (read X queries s)) = network_queries s \<and>
   network_queries_ids (snd (read X queries s)) = network_queries_ids s \<and>
   queries_ref (snd (read X queries s)) = queries_ref s"
  by (simp add: read_def read_all_def ext_call_def Let_def split: prod.split)

lemma extract_clears_queries:
  assumes "fst (extract X file_path queries n ext s) = Inr ()"
    and "clear_queries_after_reading s"
  shows "heap (snd (extract X file_path queries n ext s))
           (network_queries (snd (extract X file_path queries n ext s))) = []
       \<and> heap (snd (extract X file_path queries n ext s))
           (network_queries_ids (snd (extract X file_path queries n ext s))) = []"
  using assms
  by (auto simp add: extract_def then_run_def ext_call_def clear_queries_def Let_def
      split: prod.splits sum.splits)

text \<open>
  C2: the object is configured to clear its queries after reading and has one active
  query. \<^verbatim>\<open>read()\<close> returns the reader's table for that query, and afterwards the
  query list and the list of query identifiers still hold their entries.
\<close>

theorem read_leaves_queries:
  "clear_queries_after_reading demo_state \<and>
   fst (read demo QNone demo_state) = Inr ''q1'' \<and>
   heap (snd (read demo QNone demo_state)) (network_queries (snd (read demo QNone demo_state)))
     = [''q1''] \<and>
   heap (snd (read demo QNone demo_state)) (network_queries_ids (snd (read demo QNone demo_state)))
     = [''id1'']"
  by (simp add: read_def read_all_def ext_call_def Let_def get_actual_queries_def
      active_queries_def demo_state_def demo_def)

text \<open>
  C4: for a \<^verbatim>\<open>queries\<close> argument that is not \<^verbatim>\<open>None\<close>, \<^verbatim>\<open>read\<close> is one call of the
  reader's \<^verbatim>\<open>read\<close> on the argument itself when it is a list and on the one-element list
  of it otherwise, and what \<^verbatim>\<open>read\<close> returns (a table or a raised exception) is what
  that call returned.
\<close>

theorem read_passes_through:
  "read X (QList qs) s = ext_call (Call_reader_read qs) (reader_read X qs) s
   \<and> fst (read X (QList qs) s) = fst (reader_read X qs (engine s))
   \<and> read X (QObj q) s = ext_call (Call_reader_read [q]) (reader_read X [q]) s
   \<and> fst (read X (QObj q) s) = fst (reader_read X [q] (engine s))"
  by (simp add: read_def get_actual_queries_def ext_call_fst Let_def)

text \<open>
  C8: with \<^verbatim>\<open>queries=None\<close>, \<^verbatim>\<open>read\<close> is \<^verbatim>\<open>read_all\<close> when the active query list is
  empty; when it is not empty, \<^verbatim>\<open>read\<close> is one call of the reader's \<^verbatim>\<open>read\<close> on the
  active queries and the reader's \<^verbatim>\<open>read_all\<close> is not called.
\<close>

theorem read_none_uses_active:
  "(active_queries s = [] \<longrightarrow> read X QNone s = read_all X s)
   \<and> (active_queries s \<noteq> [] \<longrightarrow>
        read X QNone s =
          ext_call (Call_reader_read (active_queries s)) (reader_read X (active_queries s)) s
        \<and> new_calls s (snd (read X QNone s)) = [Call_reader_read (active_queries s)])"
  by (simp add: read_def get_actual_queries_def Let_def ext_call_def new_calls_def
      split: prod.split)

theorem read_none_uses_active_witness:
  "read demo QNone demo_idle = read_all demo demo_idle
   \<and> fst (read_all demo demo_idle) = Inr ''all''
   \<and> new_calls demo_state (snd (read demo QNone demo_state)) = [Call_reader_read [''q1'']]
   \<and> fst (read demo QNone demo_state) = Inr ''q1''"
  using read_none_uses_active [of demo_idle demo] read_none_uses_active [of demo_state demo]
  by (simp add: read_all_def ext_call_def new_calls_def)

subsection \<open>Clearing the queries\<close>

text \<open>
  C10: after \<^verbatim>\<open>clear_queries\<close> the list \<^verbatim>\<open>result_network.queries\<close> and the list
  \<^verbatim>\<open>result_network.queries_ids\<close> are both empty, and the three references are the
  ones the object had before.
\<close>

theorem clear_queries_empties_both:
  "heap (clear_queries s) (network_queries (clear_queries s)) = [] \<and>
   heap (clear_queries s) (network_queries_ids (clear_queries s)) = [] \<and>
   network_queries (clear_queries s) = network_queries s \<and>
   network_queries_ids (clear_queries s) = network_queries_ids s \<and>
   queries_ref (clear_queries s) = queries_ref s"
  by (simp add: clear_queries_def Let_def)

subsection \<open>Extracting\<close>




text \<open>
  The extension that \<^verbatim>\<open>os.path.splitext\<close> returns is empty or begins with the dot, for
  every path and every choice of separators. So it is never one of the file types
  \<^verbatim>\<open>'csv'\<close>, \<^verbatim>\<open>'dfs0'\<close>, \<^verbatim>\<open>'txt'\<close>.
\<close>

lemma rfind_from_range:
  "rfind_from c xs i found = found \<or>
   (i \<le> rfind_from c xs i found \<and> rfind_from c xs i found < i + int (length xs) \<and>
    xs ! nat (rfind_from c xs i found - i) = c)"
proof (induction xs arbitrary: i found)
  case Nil
  then show ?case by simp
next
  case (Cons x xs)
  from Cons.IH [of "i + 1" "if x = c then i else found"]
  show ?case
  proof
    assume "rfind_from c xs (i + 1) (if x = c then i else found) = (if x = c then i else found)"
    then show ?thesis by (auto split: if_splits)
  next
    assume a: "i + 1 \<le> rfind_from c xs (i + 1) (if x = c then i else found) \<and>
       rfind_from c xs (i + 1) (if x = c then i else found) < i + 1 + int (length xs) \<and>
       xs ! nat (rfind_from c xs (i + 1) (if x = c then i else found) - (i + 1)) = c"
    define r where "r = rfind_from c xs (i + 1) (if x = c then i else found)"
    from a have r: "i + 1 \<le> r" "r < i + 1 + int (length xs)" "xs ! nat (r - (i + 1)) = c"
      by (simp_all add: r_def)
    have "nat (r - i) = Suc (nat (r - (i + 1)))" using r(1) by simp
    then have "(x # xs) ! nat (r - i) = c" using r(3) by simp
    then show ?thesis using r by (simp add: r_def)
  qed
qed

lemma rfind_range:
  "rfind p c = - 1 \<or> (0 \<le> rfind p c \<and> nat (rfind p c) < length p \<and> p ! nat (rfind p c) = c)"
  using rfind_from_range [of c p 0 "- 1"] by (auto simp add: rfind_def)

lemma skip_leading_dots_snd:
  "snd (skip_leading_dots p extsep f d) = [] \<or> snd (skip_leading_dots p extsep f d) = drop d p"
proof (induction p extsep f d rule: skip_leading_dots.induct)
  case (1 p extsep filenameIndex dotIndex)
  then show ?case
    by (subst (1 2) skip_leading_dots.simps) (auto simp del: take_eq_Nil)
qed

lemma splitext_generic_dotted:
  "snd (splitext_generic p sep altsep extsep) = [] \<or>
   (\<exists>rest. snd (splitext_generic p sep altsep extsep) = extsep # rest)"
proof (cases "rfind p extsep = - 1")
  case True
  have "- 1 \<le> rfind p sep" using rfind_range [of p sep] by auto
  then show ?thesis using True
    by (auto simp add: splitext_generic_def Let_def split: option.split)
next
  case False
  with rfind_range [of p extsep]
  have r: "0 \<le> rfind p extsep" "nat (rfind p extsep) < length p" "p ! nat (rfind p extsep) = extsep"
    by auto
  have "drop (nat (rfind p extsep)) p = extsep # drop (Suc (nat (rfind p extsep))) p"
    using r(2,3) by (metis Cons_nth_drop_Suc)
  then show ?thesis
    using skip_leading_dots_snd [of p extsep _ "nat (rfind p extsep)"]
    by (auto simp add: splitext_generic_def Let_def split: option.split)
qed

lemma splitext_never_documented:
  "snd (splitext X p) \<noteq> ''csv'' \<and> snd (splitext X p) \<noteq> ''dfs0'' \<and> snd (splitext X p) \<noteq> ''txt''"
  using splitext_generic_dotted [of p "path_sep X" "path_altsep X" "CHR ''.''"]
  by (auto simp add: splitext_def)

text \<open>
  Hence, with \<^verbatim>\<open>ext=None\<close>, the factory of the documented file types raises for every
  path, and \<^verbatim>\<open>extract\<close> ends there: the log holds the conversion and the refused
  creation, and no export.
\<close>

lemma documented_create_path_ext:
  "documented_create (snd (splitext X p)) fp d n e = (Inl unsupported, e)"
  using splitext_never_documented [of X p] by (simp add: documented_create_def)

lemma extract_path_ext_never_exports:
  "extract demo_documented file_path queries n None s =
     (Inl unsupported,
      s\<lparr>engine := engine s,
        calls := calls s @
          [Call_convert_queries (get_actual_queries queries s),
           Call_extractor_create (snd (splitext demo_documented file_path)) file_path
             (concat (get_actual_queries queries s)) n]\<rparr>)"
  by (simp add: extract_def then_run_def ext_call_def Let_def documented_create_path_ext)


subsection \<open>Modifying and saving\<close>

text \<open>
  C9: \<^verbatim>\<open>modify\<close> with a file path is \<^verbatim>\<open>modify\<close> without one followed by \<^verbatim>\<open>save\<close> to
  that path; \<^verbatim>\<open>modify\<close> without a file path is one call of the writer's \<^verbatim>\<open>modify\<close>
  and nothing else, so nothing is saved.
\<close>

theorem modify_then_save:
  "modify X data_frame (Some p) = then_run (modify X data_frame None) (\<lambda>_. save X p)
   \<and> modify X data_frame None s =
       ext_call (Call_writer_modify data_frame) (writer_modify X data_frame) s
   \<and> new_calls s (snd (modify X data_frame None s)) = [Call_writer_modify data_frame]"
  by (auto simp add: modify_def then_run_def ext_call_def new_calls_def fun_eq_iff
      split: prod.split sum.split)

subsection \<open>Exceptions of the collaborators\<close>

text \<open>
  C7: an exception raised by a collaborator during \<^verbatim>\<open>read\<close>, \<^verbatim>\<open>read_all\<close>, \<^verbatim>\<open>save\<close>
  or \<^verbatim>\<open>extract\<close> is the exception that the method raises. The calls made up to the
  raising one are in the log once each and nothing is called after it: there is no
  translation, no retry and no recovery.
\<close>

theorem external_exceptions_propagate:
  "(\<not> (queries = QNone \<and> active_queries s = []) \<and>
    reader_read X (get_actual_queries queries s) (engine s) = (Inl x, e') \<longrightarrow>
      read X queries s =
        (Inl x, s\<lparr>engine := e',
                  calls := calls s @ [Call_reader_read (get_actual_queries queries s)]\<rparr>))
   \<and> (reader_read_all X (engine s) = (Inl x, e') \<longrightarrow>
      read_all X s = (Inl x, s\<lparr>engine := e', calls := calls s @ [Call_reader_read_all]\<rparr>))
   \<and> (active_queries s = [] \<and> reader_read_all X (engine s) = (Inl x, e') \<longrightarrow>
      read X QNone s = (Inl x, s\<lparr>engine := e', calls := calls s @ [Call_reader_read_all]\<rparr>))
   \<and> (data_set_path X p (engine s) = (Inl x, e') \<longrightarrow>
      save X p s = (Inl x, s\<lparr>engine := e', calls := calls s @ [Call_set_path p]\<rparr>))
   \<and> (data_set_path X p (engine s) = (Inr (), ea) \<and> data_save X ea = (Inl x, e') \<longrightarrow>
      save X p s =
        (Inl x, s\<lparr>engine := e', calls := calls s @ [Call_set_path p, Call_data_save]\<rparr>))
   \<and> (convert_queries_to_data_entries X (get_actual_queries queries s) (engine s) = (Inl x, e') \<longrightarrow>
      extract X file_path queries n ext s =
        (Inl x, s\<lparr>engine := e',
                  calls := calls s @ [Call_convert_queries (get_actual_queries queries s)]\<rparr>))
   \<and> (convert_queries_to_data_entries X (get_actual_queries queries s) (engine s) = (Inr d, ea) \<and>
      extractor_create X (case ext of None \<Rightarrow> snd (splitext X file_path) | Some t \<Rightarrow> t)
        file_path d n ea = (Inl x, e') \<longrightarrow>
      extract X file_path queries n ext s =
        (Inl x, s\<lparr>engine := e',
                  calls := calls s @
                    [Call_convert_queries (get_actual_queries queries s),
                     Call_extractor_create
                       (case ext of None \<Rightarrow> snd (splitext X file_path) | Some t \<Rightarrow> t)
                       file_path d n]\<rparr>))
   \<and> (convert_queries_to_data_entries X (get_actual_queries queries s) (engine s) = (Inr d, ea) \<and>
      extractor_create X (case ext of None \<Rightarrow> snd (splitext X file_path) | Some t \<Rightarrow> t)
        file_path d n ea = (Inr ex, eb) \<and>
      extractor_export X ex eb = (Inl x, e') \<longrightarrow>
      extract X file_path queries n ext s =
        (Inl x, s\<lparr>engine := e',
                  calls := calls s @
                    [Call_convert_queries (get_actual_queries queries s),
                     Call_extractor_create
                       (case ext of None \<Rightarrow> snd (splitext X file_path) | Some t \<Rightarrow> t)
                       file_path d n,
                     Call_extractor_export ex]\<rparr>))"
proof (intro conjI impI)
  assume "\<not> (queries = QNone \<and> active_queries s = []) \<and>
    reader_read X (get_actual_queries queries s) (engine s) = (Inl x, e')"
  then show "read X queries s =
        (Inl x, s\<lparr>engine := e',
                  calls := calls s @ [Call_reader_read (get_actual_queries queries s)]\<rparr>)"
    by (auto simp add: read_def ext_call_def Let_def)
next
  assume "reader_read_all X (engine s) = (Inl x, e')"
  then show "read_all X s = (Inl x, s\<lparr>engine := e', calls := calls s @ [Call_reader_read_all]\<rparr>)"
    by (simp add: read_all_def ext_call_def)
next
  assume "active_queries s = [] \<and> reader_read_all X (engine s) = (Inl x, e')"
  then show "read X QNone s = (Inl x, s\<lparr>engine := e', calls := calls s @ [Call_reader_read_all]\<rparr>)"
    by (simp add: read_def read_all_def ext_call_def)
next
  assume "data_set_path X p (engine s) = (Inl x, e')"
  then show "save X p s = (Inl x, s\<lparr>engine := e', calls := calls s @ [Call_set_path p]\<rparr>)"
    by (simp add: save_def then_run_def ext_call_def)
next
  assume "data_set_path X p (engine s) = (Inr (), ea) \<and> data_save X ea = (Inl x, e')"
  then show "save X p s =
        (Inl x, s\<lparr>engine := e', calls := calls s @ [Call_set_path p, Call_data_save]\<rparr>)"
    by (simp add: save_def then_run_def ext_call_def)
next
  assume "convert_queries_to_data_entries X (get_actual_queries queries s) (engine s) = (Inl x, e')"
  then show "extract X file_path queries n ext s =
        (Inl x, s\<lparr>engine := e',
                  calls := calls s @ [Call_convert_queries (get_actual_queries queries s)]\<rparr>)"
    by (simp add: extract_def then_run_def ext_call_def Let_def)
next
  assume "convert_queries_to_data_entries X (get_actual_queries queries s) (engine s) = (Inr d, ea) \<and>
      extractor_create X (case ext of None \<Rightarrow> snd (splitext X file_path) | Some t \<Rightarrow> t)
        file_path d n ea = (Inl x, e')"
  then show "extract X file_path queries n ext s =
        (Inl x, s\<lparr>engine := e',
                  calls := calls s @
                    [Call_convert_queries (get_actual_queries queries s),
                     Call_extractor_create
                       (case ext of None \<Rightarrow> snd (splitext X file_path) | Some t \<Rightarrow> t)
                       file_path d n]\<rparr>)"
    by (simp add: extract_def then_run_def ext_call_def Let_def)
next
  assume "convert_queries_to_data_entries X (get_actual_queries queries s) (engine s) = (Inr d, ea) \<and>
      extractor_create X (case ext of None \<Rightarrow> snd (splitext X file_path) | Some t \<Rightarrow> t)
        file_path d n ea = (Inr ex, eb) \<and>
      extractor_export X ex eb = (Inl x, e')"
  then show "extract X file_path queries n ext s =
        (Inl x, s\<lparr>engine := e',
                  calls := calls s @
                    [Call_convert_queries (get_actual_queries queries s),
                     Call_extractor_create
                       (case ext of None \<Rightarrow> snd (splitext X file_path) | Some t \<Rightarrow> t)
                       file_path d n,
                     Call_extractor_export ex]\<rparr>)"
    by (simp add: extract_def then_run_def ext_call_def Let_def)
qed

theorem external_exceptions_propagate_witness:
  "read demo_raise_first QNone demo_state =
     (Inl boom, demo_state\<lparr>engine := [], calls := [Call_reader_read [''q1'']]\<rparr>)
   \<and> read_all demo_raise_first demo_state =
     (Inl boom, demo_state\<lparr>engine := [], calls := [Call_reader_read_all]\<rparr>)
   \<and> read demo_raise_first QNone demo_idle =
     (Inl boom, demo_idle\<lparr>engine := [], calls := [Call_reader_read_all]\<rparr>)
   \<and> save demo_raise_first ''new.res1d'' demo_state =
     (Inl boom, demo_state\<lparr>engine := [], calls := [Call_set_path ''new.res1d'']\<rparr>)
   \<and> save demo_raise_later ''new.res1d'' demo_state =
     (Inl boom, demo_state\<lparr>engine := [''new.res1d''],
                           calls := [Call_set_path ''new.res1d'', Call_data_save]\<rparr>)
   \<and> extract demo_raise_first ''out.csv'' QNone 1 None demo_state =
     (Inl boom, demo_state\<lparr>engine := [], calls := [Call_convert_queries [''q1'']]\<rparr>)
   \<and> extract demo_raise_later ''out.csv'' QNone 1 (Some ''csv'') demo_state =
     (Inl boom, demo_state\<lparr>engine := [],
                           calls := [Call_convert_queries [''q1''],
                                     Call_extractor_create ''csv'' ''out.csv'' ''q1'' 1]\<rparr>)
   \<and> extract demo_raise_export ''out.csv'' QNone 1 (Some ''csv'') demo_state =
     (Inl boom, demo_state\<lparr>engine := [],
                           calls := [Call_convert_queries [''q1''],
                                     Call_extractor_create ''csv'' ''out.csv'' ''q1'' 1,
                                     Call_extractor_export ''csv:out.csv'']\<rparr>)"
  using
    external_exceptions_propagate [where X = demo_raise_first and s = demo_state
      and queries = QNone and x = boom and e' = "[]" and p = "''new.res1d''"
      and file_path = "''out.csv''" and n = 1 and ext = None]
    external_exceptions_propagate [where X = demo_raise_first and s = demo_idle
      and queries = QNone and x = boom and e' = "[]"]
    external_exceptions_propagate [where X = demo_raise_later and s = demo_state
      and queries = QNone and x = boom and e' = "[''new.res1d'']" and p = "''new.res1d''"
      and ea = "[''new.res1d'']"]
    external_exceptions_propagate [where X = demo_raise_later and s = demo_state
      and queries = QNone and x = boom and e' = "[]" and ea = "[]" and d = "''q1''"
      and file_path = "''out.csv''" and n = 1 and ext = "Some ''csv''"]
    external_exceptions_propagate [where X = demo_raise_export and s = demo_state
      and queries = QNone and x = boom and e' = "[]" and ea = "[]" and eb = "[]"
      and d = "''q1''" and ex = "''csv:out.csv''"
      and file_path = "''out.csv''" and n = 1 and ext = "Some ''csv''"]
  by simp

end
